theory Spec2Isabelle
  imports Complex_Main
begin

section \<open>JavaScript values\<close>

text \<open>
  The program is TypeScript. A \<^verbatim>\<open>number\<close> that counts something (batch size, retries,
  ceilings, in-flight requests) is an \<open>int\<close>; a duration or a time stamp in milliseconds is
  a \<open>rat\<close>, because \<^verbatim>\<open>currentDelay * 0.95\<close> leaves the integers. Arithmetic on doubles is
  taken as exact arithmetic, and \<^verbatim>\<open>NaN\<close> is not a value of the model. An optional
  field (\<^verbatim>\<open>batchSize?: number\<close>) is an \<open>option\<close>, \<open>None\<close> being \<^verbatim>\<open>undefined\<close>.

  \<^verbatim>\<open>x || d\<close> yields \<open>d\<close> when \<open>x\<close> is falsy (\<^verbatim>\<open>undefined\<close>, \<open>0\<close>, \<^verbatim>\<open>false\<close>);
  \<^verbatim>\<open>x ?? d\<close> yields \<open>d\<close> only when \<open>x\<close> is \<^verbatim>\<open>undefined\<close>.
\<close>

definition js_or :: "'a::zero option \<Rightarrow> 'a \<Rightarrow> 'a" where
  "js_or x d = (case x of None \<Rightarrow> d | Some v \<Rightarrow> if v = 0 then d else v)"

definition js_or_bool :: "bool option \<Rightarrow> bool \<Rightarrow> bool" where
  "js_or_bool x d = (case x of None \<Rightarrow> d | Some b \<Rightarrow> if b then b else d)"

definition js_nullish :: "'a option \<Rightarrow> 'a \<Rightarrow> 'a" where
  "js_nullish x d = (case x of None \<Rightarrow> d | Some v \<Rightarrow> v)"

text \<open>
  Strings are lists of characters. \<^verbatim>\<open>startsWith\<close>, \<^verbatim>\<open>endsWith\<close>, \<^verbatim>\<open>includes\<close>
  and \<^verbatim>\<open>toLowerCase\<close> (on the letters A to Z, the only ones the searched phrases
  contain) are written out (\<open>includes_str\<close>, since \<open>includes\<close> is a keyword of Isabelle).
\<close>

fun startsWith :: "string \<Rightarrow> string \<Rightarrow> bool" where
  "startsWith s [] = True"
| "startsWith [] (p # ps) = False"
| "startsWith (c # cs) (p # ps) = (c = p \<and> startsWith cs ps)"

definition endsWith :: "string \<Rightarrow> string \<Rightarrow> bool" where
  "endsWith s p = startsWith (rev s) (rev p)"

fun includes_str :: "string \<Rightarrow> string \<Rightarrow> bool" where
  "includes_str [] sub = (sub = [])"
| "includes_str (c # cs) sub = (startsWith (c # cs) sub \<or> includes_str cs sub)"

definition toLowerChar :: "char \<Rightarrow> char" where
  "toLowerChar c =
     (let n = (of_char c :: nat) in if 65 \<le> n \<and> n \<le> 90 then char_of (n + 32) else c)"

definition toLowerCase :: "string \<Rightarrow> string" where
  "toLowerCase s = map toLowerChar s"

section \<open>Configuration (types.ts, translate.ts)\<close>

text \<open>
  \<^verbatim>\<open>TranslationConfig\<close>, without the fields that only reach the provider (API key,
  model, target language). The provider name is one of the three families of
  \<^verbatim>\<open>getDefaultLimits\<close>, or any other string (its \<^verbatim>\<open>default\<close> branch). The three
  rate-limit overrides carry the prefix \<open>cfg_\<close>, their names being those of the
  RateLimiter's own fields.
\<close>

datatype provider = OpenAI | Anthropic | Gemini | OtherProvider

record TranslationConfig =
  provider :: provider
  batchSize :: "int option"
  delay :: "rat option"
  maxRetries :: "int option"
  cfg_requestsPerMinute :: "int option"
  cfg_requestsPerSecond :: "int option"
  cfg_maxConcurrentRequests :: "int option"
  adaptiveRateLimit :: "bool option"

text \<open>The options object that \<^verbatim>\<open>parseArgs\<close> fills from the command line.\<close>

record cliOptions =
  opt_provider :: "provider option"
  opt_batchSize :: "int option"
  opt_delay :: "rat option"
  opt_maxRetries :: "int option"
  opt_requestsPerMinute :: "int option"
  opt_requestsPerSecond :: "int option"
  opt_maxConcurrentRequests :: "int option"
  opt_adaptiveRateLimit :: "bool option"

text \<open>\<^verbatim>\<open>DEFAULT_CONFIG\<close> and the configuration object that \<^verbatim>\<open>main\<close> assembles.\<close>

definition DEFAULT_batchSize :: int where "DEFAULT_batchSize = 10"
definition DEFAULT_delay :: rat where "DEFAULT_delay = 1000"
definition DEFAULT_maxRetries :: int where "DEFAULT_maxRetries = 3"

definition main_config :: "cliOptions \<Rightarrow> TranslationConfig" where
  "main_config options =
     \<lparr> provider = js_nullish (opt_provider options) OpenAI,
       batchSize = Some (js_or (opt_batchSize options) DEFAULT_batchSize),
       delay = Some (js_or (opt_delay options) DEFAULT_delay),
       maxRetries = Some (js_or (opt_maxRetries options) DEFAULT_maxRetries),
       cfg_requestsPerMinute = opt_requestsPerMinute options,
       cfg_requestsPerSecond = opt_requestsPerSecond options,
       cfg_maxConcurrentRequests = opt_maxConcurrentRequests options,
       adaptiveRateLimit = Some (js_nullish (opt_adaptiveRateLimit options) True) \<rparr>"

text \<open>
  The three places that read a parameter with a falsy-or fallback:
  \<^verbatim>\<open>this.config.batchSize || 10\<close> in \<^verbatim>\<open>translateFile\<close>,
  \<^verbatim>\<open>this.config.maxRetries || 3\<close> in \<^verbatim>\<open>translateEntry\<close>, and
  \<^verbatim>\<open>config.delay || 1000\<close> in the RateLimiter's constructor.
\<close>

definition effective_batchSize :: "TranslationConfig \<Rightarrow> int" where
  "effective_batchSize config = js_or (batchSize config) 10"

definition effective_maxRetries :: "TranslationConfig \<Rightarrow> int" where
  "effective_maxRetries config = js_or (maxRetries config) 3"

definition effective_baseDelay :: "TranslationConfig \<Rightarrow> rat" where
  "effective_baseDelay config = js_or (delay config) 1000"

section \<open>RateLimiter (rate-limiter.ts)\<close>

record RateLimiter =
  requestTimes :: "rat list"
  activeRequests :: int
  requestsPerMinute :: int
  requestsPerSecond :: int
  maxConcurrentRequests :: int
  adaptiveMode :: bool
  baseDelay :: rat
  currentDelay :: rat

text \<open>\<^verbatim>\<open>getDefaultLimits\<close>: requests per minute, per second, and concurrent requests.\<close>

fun getDefaultLimits :: "provider \<Rightarrow> int option \<times> int option \<times> int option" where
  "getDefaultLimits OpenAI = (Some 3500, Some 60, Some 10)"
| "getDefaultLimits Anthropic = (Some 4000, Some 50, Some 5)"
| "getDefaultLimits Gemini = (Some 1500, Some 15, Some 5)"
| "getDefaultLimits OtherProvider = (Some 1000, Some 10, Some 3)"

text \<open>The constructor. The adaptive flag is \<^verbatim>\<open>config.adaptiveRateLimit || true\<close>.\<close>

definition new_RateLimiter :: "TranslationConfig \<Rightarrow> RateLimiter" where
  "new_RateLimiter config =
     (case getDefaultLimits (provider config) of (dpm, dps, dmc) \<Rightarrow>
        \<lparr> requestTimes = [],
          activeRequests = 0,
          requestsPerMinute = js_nullish (cfg_requestsPerMinute config) (js_nullish dpm 1000),
          requestsPerSecond = js_nullish (cfg_requestsPerSecond config) (js_nullish dps 10),
          maxConcurrentRequests = js_nullish (cfg_maxConcurrentRequests config) (js_nullish dmc 3),
          adaptiveMode = js_or_bool (adaptiveRateLimit config) True,
          baseDelay = effective_baseDelay config,
          currentDelay = effective_baseDelay config \<rparr>)"

text \<open>
  The value a failed call throws. Every provider of the repository throws an
  \<^verbatim>\<open>Error\<close> it has built itself (\<^verbatim>\<open>new Error(`Translation failed: ...`)\<close>, or the
  rate-limit error with \<^verbatim>\<open>isRateLimit\<close> and perhaps \<^verbatim>\<open>retryAfter\<close>), so the message is
  a string; \<^verbatim>\<open>code\<close> and \<^verbatim>\<open>status\<close> are the numeric fields \<^verbatim>\<open>isRateLimitError\<close> reads.
\<close>

record js_error =
  message :: string
  code :: "int option"
  status :: "int option"
  retryAfter :: "rat option"

definition isRateLimitError :: "js_error \<Rightarrow> bool" where
  "isRateLimitError error =
     (let errorMessage = toLowerCase (message error);
          errorCode = js_or (code error) (js_or (status error) 0)
      in errorCode = 429
         \<or> includes_str errorMessage ''rate limit''
         \<or> includes_str errorMessage ''too many requests''
         \<or> includes_str errorMessage ''quota exceeded''
         \<or> includes_str errorMessage ''throttled'')"

definition releaseToken :: "RateLimiter \<Rightarrow> RateLimiter" where
  "releaseToken rl = rl\<lparr>activeRequests := max 0 (activeRequests rl - 1)\<rparr>"

text \<open>\<^verbatim>\<open>handleRateLimit\<close> returns the classification and the updated limiter.\<close>

definition handleRateLimit :: "js_error \<Rightarrow> RateLimiter \<Rightarrow> bool \<times> RateLimiter" where
  "handleRateLimit error rl =
     (let isRateLimit = isRateLimitError error
      in (isRateLimit,
          if isRateLimit \<and> adaptiveMode rl
          then rl\<lparr>currentDelay := min (currentDelay rl * 2) 30000,
                  maxConcurrentRequests :=
                    max 1 \<lfloor>of_int (maxConcurrentRequests rl) * (8 / 10 :: rat)\<rfloor>\<rparr>
          else rl))"

definition handleSuccess :: "RateLimiter \<Rightarrow> RateLimiter" where
  "handleSuccess rl =
     (if adaptiveMode rl \<and> currentDelay rl > baseDelay rl
      then rl\<lparr>currentDelay := max (baseDelay rl) (currentDelay rl * (95 / 100))\<rparr>
      else rl)"

text \<open>A finite sequence of calls on one limiter, as the orchestrator issues them.\<close>

datatype limiter_call = ReportThrottled js_error | ReportSuccess

fun limiter_step :: "RateLimiter \<Rightarrow> limiter_call \<Rightarrow> RateLimiter" where
  "limiter_step rl (ReportThrottled error) = snd (handleRateLimit error rl)"
| "limiter_step rl ReportSuccess = handleSuccess rl"

definition limiter_run :: "limiter_call list \<Rightarrow> RateLimiter \<Rightarrow> RateLimiter" where
  "limiter_run calls rl = foldl limiter_step rl calls"

text \<open>Concrete inputs used below.\<close>

definition plain_config :: TranslationConfig where
  "plain_config =
     \<lparr> provider = OpenAI, batchSize = None, delay = None, maxRetries = None,
       cfg_requestsPerMinute = None, cfg_requestsPerSecond = None,
       cfg_maxConcurrentRequests = None, adaptiveRateLimit = None \<rparr>"

definition error_429 :: js_error where
  "error_429 = \<lparr> message = ''Too Many Requests'', code = None, status = Some 429,
                 retryAfter = None \<rparr>"

definition error_generic :: js_error where
  "error_generic = \<lparr> message = ''Translation failed: Empty response from OpenAI'',
                     code = None, status = None, retryAfter = None \<rparr>"


subsection \<open>acquireToken\<close>

text \<open>
  \<^verbatim>\<open>acquireToken\<close> is an \<^verbatim>\<open>async\<close> function: it runs without interruption from one
  \<^verbatim>\<open>await this.sleep(...)\<close> to the next, and other tasks run while it sleeps. A call in
  progress is therefore a program counter (the place where it resumes) and the time at
  which its timer fires. The four places are: the concurrency loop, the per-second check
  (which still holds the \<^verbatim>\<open>now\<close> read before the per-minute wait), the adaptive delay,
  and the two statements that take the token.

  \<^verbatim>\<open>requestTimes[0]\<close> of an empty array is \<^verbatim>\<open>undefined\<close>, the wait computed from it is
  \<^verbatim>\<open>NaN\<close>, and \<^verbatim>\<open>setTimeout\<close> takes that as 0: this is the \<open>[]\<close> case of \<open>oldest_wait\<close>.
\<close>

datatype acquire_pc =
    AtConcurrencyCheck
  | AtSecondCheck rat
  | AtDelay
  | AtCommit
  | Returned

record acquire_task =
  pc :: acquire_pc
  wake :: rat

definition oldest_wait :: "rat \<Rightarrow> rat \<Rightarrow> rat list \<Rightarrow> rat" where
  "oldest_wait window now stamps =
     (case stamps of [] \<Rightarrow> 0 | oldest # _ \<Rightarrow> window - (now - oldest))"

definition commit_token :: "rat \<Rightarrow> RateLimiter \<Rightarrow> RateLimiter \<times> acquire_task" where
  "commit_token clk rl =
     (rl\<lparr>activeRequests := activeRequests rl + 1, requestTimes := requestTimes rl @ [clk]\<rparr>,
      \<lparr>pc = Returned, wake = clk\<rparr>)"

definition from_delay :: "rat \<Rightarrow> RateLimiter \<Rightarrow> RateLimiter \<times> acquire_task" where
  "from_delay clk rl =
     (if currentDelay rl > 0 then (rl, \<lparr>pc = AtCommit, wake = clk + currentDelay rl\<rparr>)
      else commit_token clk rl)"

definition from_second :: "rat \<Rightarrow> rat \<Rightarrow> RateLimiter \<Rightarrow> RateLimiter \<times> acquire_task" where
  "from_second now clk rl =
     (let recentRequests = filter (\<lambda>time. now - time < 1000) (requestTimes rl)
      in if int (length recentRequests) \<ge> requestsPerSecond rl
         then (rl, \<lparr>pc = AtDelay, wake = clk + oldest_wait 1000 now recentRequests\<rparr>)
         else from_delay clk rl)"

definition from_check :: "rat \<Rightarrow> RateLimiter \<Rightarrow> RateLimiter \<times> acquire_task" where
  "from_check clk rl =
     (if activeRequests rl \<ge> maxConcurrentRequests rl
      then (rl, \<lparr>pc = AtConcurrencyCheck, wake = clk + 100\<rparr>)
      else
        (let now = clk;
             rl1 = rl\<lparr>requestTimes := filter (\<lambda>time. now - time < 60000) (requestTimes rl)\<rparr>
         in if int (length (requestTimes rl1)) \<ge> requestsPerMinute rl1
            then (rl1, \<lparr>pc = AtSecondCheck now,
                        wake = clk + oldest_wait 60000 now (requestTimes rl1)\<rparr>)
            else from_second now clk rl1))"

text \<open>Resuming a call at time \<open>clk\<close>: it runs to its next sleep or to its return.\<close>

definition resume :: "rat \<Rightarrow> RateLimiter \<Rightarrow> acquire_task \<Rightarrow> RateLimiter \<times> acquire_task" where
  "resume clk rl task =
     (case pc task of
        AtConcurrencyCheck \<Rightarrow> from_check clk rl
      | AtSecondCheck now \<Rightarrow> from_second now clk rl
      | AtDelay \<Rightarrow> from_delay clk rl
      | AtCommit \<Rightarrow> commit_token clk rl
      | Returned \<Rightarrow> (rl, task))"

text \<open>
  A call that runs alone: nothing else touches the limiter while it sleeps, and each
  timer fires at its time. If the in-flight count is not below the ceiling the loop
  \<^verbatim>\<open>while (activeRequests >= maxConcurrentRequests) await sleep(100)\<close> never ends, which is
  the result \<open>None\<close>. Otherwise at most three sleeps follow (per minute, per second,
  adaptive delay) before the token is taken; the result is the time of the return and
  the limiter.
\<close>

definition acquireToken :: "rat \<Rightarrow> RateLimiter \<Rightarrow> (rat \<times> RateLimiter) option" where
  "acquireToken clk rl =
     (if activeRequests rl \<ge> maxConcurrentRequests rl then None
      else
        (case from_check clk rl of (rl1, k1) \<Rightarrow>
         case resume (wake k1) rl1 k1 of (rl2, k2) \<Rightarrow>
         case resume (wake k2) rl2 k2 of (rl3, k3) \<Rightarrow>
         case resume (wake k3) rl3 k3 of (rl4, k4) \<Rightarrow> Some (wake k4, rl4)))"

text \<open>
  Several calls on one limiter. The scheduler resumes a call whose timer has fired,
  lets time pass, or runs a \<^verbatim>\<open>releaseToken()\<close> of some holder; any list of such events is
  a run of the event loop.
\<close>

record gate_system =
  limiter :: RateLimiter
  time_ms :: rat
  calls :: "acquire_task list"

datatype gate_event = Resume nat | Tick rat | Release

fun gate_step :: "gate_system \<Rightarrow> gate_event \<Rightarrow> gate_system" where
  "gate_step sys (Resume i) =
     (if i < length (calls sys) \<and> wake (calls sys ! i) \<le> time_ms sys
      then (case resume (time_ms sys) (limiter sys) (calls sys ! i) of (rl, k) \<Rightarrow>
              sys\<lparr>limiter := rl, calls := (calls sys)[i := k]\<rparr>)
      else sys)"
| "gate_step sys (Tick ms) = sys\<lparr>time_ms := time_ms sys + max 0 ms\<rparr>"
| "gate_step sys Release = sys\<lparr>limiter := releaseToken (limiter sys)\<rparr>"

definition gate_run :: "gate_event list \<Rightarrow> gate_system \<Rightarrow> gate_system" where
  "gate_run events sys = foldl gate_step sys events"

text \<open>The calls that have returned; each holds a token until its caller releases it.\<close>

definition holders :: "gate_system \<Rightarrow> nat" where
  "holders sys = length (filter (\<lambda>k. pc k = Returned) (calls sys))"

definition new_call :: acquire_task where
  "new_call = \<lparr>pc = AtConcurrencyCheck, wake = 0\<rparr>"

section \<open>Catalog (types.ts)\<close>

text \<open>
  \<^verbatim>\<open>TranslationEntry\<close> (its \<^verbatim>\<open>context\<close> field is never written nor read) and \<^verbatim>\<open>PoFile\<close>.
  The header object is the list of its own properties in insertion order, which is the
  order \<^verbatim>\<open>Object.entries\<close> gives for keys that are not array indices.
\<close>

record TranslationEntry =
  msgid :: string
  msgstr :: string
  comments :: "string list option"
  line :: "nat option"

record PoFile =
  header :: "(string \<times> string) list"
  entries :: "TranslationEntry list"

section \<open>PoParser (parser.ts)\<close>

subsection \<open>String primitives\<close>

text \<open>
  A character stands for a UTF-16 code unit below 256. The characters that cannot be
  written inside a string literal have names. \<^verbatim>\<open>trim\<close> removes the white space and line
  terminators of ECMAScript; below 256 these are the six control characters 9 to 13,
  the space, and the no-break space.
\<close>

definition LF :: char where "LF = CHR 0x0A"
definition TAB :: char where "TAB = CHR 0x09"
definition BACKSLASH :: char where "BACKSLASH = CHR 0x5C"
definition DQUOTE :: char where "DQUOTE = CHR 0x22"

definition isWhiteSpace :: "char \<Rightarrow> bool" where
  "isWhiteSpace c = (let n = (of_char c :: nat) in (9 \<le> n \<and> n \<le> 13) \<or> n = 32 \<or> n = 160)"

definition trim :: "string \<Rightarrow> string" where
  "trim s = rev (dropWhile isWhiteSpace (rev (dropWhile isWhiteSpace s)))"

text \<open>
  \<^verbatim>\<open>s.split(sep)\<close> for a separator that is not empty (the program splits on the line
  feed, on backslash-n and on colon-space): the pieces between the occurrences found
  from left to right.
\<close>

function split_on :: "string \<Rightarrow> string \<Rightarrow> string list" where
  "split_on sep [] = [[]]"
| "split_on sep (c # cs) =
     (if startsWith (c # cs) sep then [] # split_on sep (drop (length sep - 1) cs)
      else (case split_on sep cs of [] \<Rightarrow> [[c]] | piece # pieces \<Rightarrow> (c # piece) # pieces))"
  by pat_completeness auto
termination
  by (relation "measure (\<lambda>(sep, s). length s)") auto

text \<open>
  \<^verbatim>\<open>s.replace(/ab/g, r)\<close> for a pattern of two characters, and \<^verbatim>\<open>s.replace(/a/g, r)\<close>
  for a pattern of one: every match found from left to right, matches not overlapping.
\<close>

fun replace2 :: "char \<Rightarrow> char \<Rightarrow> string \<Rightarrow> string \<Rightarrow> string" where
  "replace2 a b r (x # y # s) =
     (if x = a \<and> y = b then r @ replace2 a b r s else x # replace2 a b r (y # s))"
| "replace2 a b r s = s"

definition replace1 :: "char \<Rightarrow> string \<Rightarrow> string \<Rightarrow> string" where
  "replace1 a r s = concat (map (\<lambda>x. if x = a then r else [x]) s)"

subsection \<open>parse\<close>

text \<open>
  \<^verbatim>\<open>parseString\<close>: \<^verbatim>\<open>slice(1, -1)\<close> drops the first and the last character (of a string
  that is one double quote it leaves nothing), then the four replacements run in the
  order of the source.
\<close>

definition parseString :: "string \<Rightarrow> string" where
  "parseString str =
     (if startsWith str [DQUOTE] \<and> endsWith str [DQUOTE]
      then replace2 BACKSLASH BACKSLASH [BACKSLASH]
             (replace2 BACKSLASH DQUOTE [DQUOTE]
               (replace2 BACKSLASH (CHR ''t'') [TAB]
                 (replace2 BACKSLASH (CHR ''n'') [LF] (butlast (tl str)))))
      else str)"

text \<open>\<^verbatim>\<open>header[key] = value\<close> on an object: an own key keeps its place, a new one is added last.\<close>

fun set_property :: "(string \<times> string) list \<Rightarrow> string \<Rightarrow> string \<Rightarrow> (string \<times> string) list" where
  "set_property [] key v = [(key, v)]"
| "set_property ((k, old) # props) key v =
     (if k = key then (k, v) # props else (k, old) # set_property props key v)"

text \<open>
  \<^verbatim>\<open>parseHeader\<close> splits on the two characters backslash and n, and takes of each piece
  that contains colon-space the first two parts of \<^verbatim>\<open>line.split(": ", 2)\<close>.
\<close>

definition parseHeader_line :: "(string \<times> string) list \<Rightarrow> string \<Rightarrow> (string \<times> string) list" where
  "parseHeader_line hdr piece =
     (if includes_str piece '': ''
      then (case split_on '': '' piece of key # v # _ \<Rightarrow> set_property hdr key v | _ \<Rightarrow> hdr)
      else hdr)"

definition parseHeader :: "string \<Rightarrow> (string \<times> string) list" where
  "parseHeader headerStr =
     foldl parseHeader_line [] (split_on [BACKSLASH, CHR ''n''] headerStr)"

text \<open>
  The local variables of \<^verbatim>\<open>parse\<close>. \<^verbatim>\<open>currentEntry\<close> is a
  \<^verbatim>\<open>Partial<TranslationEntry>\<close>: each of its fields may be absent.
\<close>

record partial_entry =
  cur_msgid :: "string option"
  cur_msgstr :: "string option"
  cur_line :: "nat option"

record parse_state =
  st_entries :: "TranslationEntry list"
  st_currentEntry :: partial_entry
  st_inMsgid :: bool
  st_inMsgstr :: bool
  st_header :: "(string \<times> string) list"
  st_isHeader :: bool
  st_comments :: "string list"

definition no_entry :: partial_entry where
  "no_entry = \<lparr>cur_msgid = None, cur_msgstr = None, cur_line = None\<rparr>"

definition truthy :: "string option \<Rightarrow> bool" where
  "truthy x = (case x of None \<Rightarrow> False | Some s \<Rightarrow> s \<noteq> [])"

definition or_empty :: "string option \<Rightarrow> string" where
  "or_empty x = (case x of None \<Rightarrow> [] | Some s \<Rightarrow> s)"

definition finishEntry ::
  "partial_entry \<Rightarrow> TranslationEntry list \<Rightarrow> string list \<Rightarrow> TranslationEntry list" where
  "finishEntry currentEntry ents cmts =
     (if truthy (cur_msgid currentEntry)
      then ents @ [\<lparr> msgid = or_empty (cur_msgid currentEntry),
                     msgstr = or_empty (cur_msgstr currentEntry),
                     comments = (if length cmts > 0 then Some cmts else None),
                     line = cur_line currentEntry \<rparr>]
      else ents)"

text \<open>The body of the loop, for the line of index \<open>i\<close>; the branches are those of the source, in its order.\<close>

definition parse_line :: "nat \<Rightarrow> string \<Rightarrow> parse_state \<Rightarrow> parse_state" where
  "parse_line i raw st =
     (let trimmed = trim raw; cur = st_currentEntry st in
      if trimmed = [] then
        (if truthy (cur_msgid cur) \<or> truthy (cur_msgstr cur)
         then st\<lparr> st_entries := finishEntry cur (st_entries st) (st_comments st),
                  st_currentEntry := no_entry,
                  st_comments := [],
                  st_inMsgid := False,
                  st_inMsgstr := False \<rparr>
         else st)
      else if startsWith trimmed ''#'' then st\<lparr>st_comments := st_comments st @ [trimmed]\<rparr>
      else if startsWith trimmed ''msgid '' then
        (let cur' = cur\<lparr>cur_msgid := Some (parseString (drop 6 trimmed)), cur_line := Some (i + 1)\<rparr>;
             st' = st\<lparr>st_inMsgid := True, st_inMsgstr := False, st_currentEntry := cur'\<rparr>
         in if st_isHeader st \<and> cur_msgid cur' = Some [] then st'
            else st'\<lparr>st_isHeader := False\<rparr>)
      else if startsWith trimmed ''msgstr '' then
        (let msgstr' = parseString (drop 7 trimmed);
             st' = st\<lparr>st_inMsgstr := True, st_inMsgid := False,
                      st_currentEntry := cur\<lparr>cur_msgstr := Some msgstr'\<rparr>\<rparr>
         in if st_isHeader st \<and> cur_msgid cur = Some []
            then st'\<lparr>st_header := parseHeader msgstr', st_isHeader := False,
                     st_currentEntry := no_entry\<rparr>
            else st')
      else if startsWith trimmed [DQUOTE] \<and> endsWith trimmed [DQUOTE] then
        (let continuationText = parseString trimmed in
         if st_inMsgid st
         then st\<lparr>st_currentEntry := cur\<lparr>cur_msgid := Some (or_empty (cur_msgid cur) @ continuationText)\<rparr>\<rparr>
         else if st_inMsgstr st
         then st\<lparr>st_currentEntry := cur\<lparr>cur_msgstr := Some (or_empty (cur_msgstr cur) @ continuationText)\<rparr>\<rparr>
         else st)
      else st)"

fun parse_lines :: "nat \<Rightarrow> string list \<Rightarrow> parse_state \<Rightarrow> parse_state" where
  "parse_lines i [] st = st"
| "parse_lines i (raw # rest) st = parse_lines (i + 1) rest (parse_line i raw st)"

definition parse_start :: parse_state where
  "parse_start =
     \<lparr> st_entries = [], st_currentEntry = no_entry, st_inMsgid = False, st_inMsgstr = False,
       st_header = [], st_isHeader = True, st_comments = [] \<rparr>"

definition parse :: "string \<Rightarrow> PoFile" where
  "parse content =
     (let st = parse_lines 0 (split_on [LF] content) parse_start;
          cur = st_currentEntry st;
          ents = (if truthy (cur_msgid cur) \<or> truthy (cur_msgstr cur)
                  then finishEntry cur (st_entries st) (st_comments st)
                  else st_entries st)
      in \<lparr>header = st_header st, entries = ents\<rparr>)"

text \<open>
  A line that takes none of the branches of the loop: after \<^verbatim>\<open>trim\<close> it is not empty,
  does not start with \<^verbatim>\<open>#\<close>, \<^verbatim>\<open>msgid \<close> or \<^verbatim>\<open>msgstr \<close>, and is not enclosed in double
  quotes.
\<close>

definition matches_no_production :: "string \<Rightarrow> bool" where
  "matches_no_production raw =
     (let trimmed = trim raw in
      trimmed \<noteq> []
      \<and> \<not> startsWith trimmed ''#''
      \<and> \<not> startsWith trimmed ''msgid ''
      \<and> \<not> startsWith trimmed ''msgstr ''
      \<and> \<not> (startsWith trimmed [DQUOTE] \<and> endsWith trimmed [DQUOTE]))"

subsection \<open>serialize\<close>

definition escapeString :: "string \<Rightarrow> string" where
  "escapeString str =
     replace1 TAB [BACKSLASH, CHR ''t'']
       (replace1 LF [BACKSLASH, CHR ''n'']
         (replace1 DQUOTE [BACKSLASH, DQUOTE]
           (replace1 BACKSLASH [BACKSLASH, BACKSLASH] str)))"

definition serialize_header_field :: "string \<times> string \<Rightarrow> string" where
  "serialize_header_field kv =
     [DQUOTE] @ fst kv @ '': '' @ snd kv @ [BACKSLASH, CHR ''n'', DQUOTE, LF]"

definition serialize_entry :: "TranslationEntry \<Rightarrow> string" where
  "serialize_entry entry =
     (case comments entry of None \<Rightarrow> [] | Some cmts \<Rightarrow> concat (map (\<lambda>comment. comment @ [LF]) cmts))
     @ ''msgid '' @ [DQUOTE] @ escapeString (msgid entry) @ [DQUOTE, LF]
     @ ''msgstr '' @ [DQUOTE] @ escapeString (msgstr entry) @ [DQUOTE, LF]
     @ [LF]"

definition serialize :: "PoFile \<Rightarrow> string" where
  "serialize poFile =
     ''msgid '' @ [DQUOTE, DQUOTE, LF]
     @ ''msgstr '' @ [DQUOTE, DQUOTE, LF]
     @ concat (map serialize_header_field (header poFile))
     @ [LF]
     @ concat (map serialize_entry (entries poFile))"

section \<open>Translator (translator.ts)\<close>

record TranslationProgress =
  total :: int
  completed :: int
  failed :: int
  current :: "string option"
  rateLimitHits :: "int option"
  averageDelay :: "rat option"

text \<open>
  The object's fields, and what it does to the world: \<open>written\<close> lists the contents passed
  to \<^verbatim>\<open>Bun.write(this.outputPath, ...)\<close>, oldest first (a write that fails is caught and
  logged by the source, and changes nothing else); \<open>slept\<close> lists the arguments of the
  Translator's own \<^verbatim>\<open>sleep\<close>; \<open>clock\<close> is the time in milliseconds. Console output
  (\<^verbatim>\<open>printProgress\<close>, \<^verbatim>\<open>console.error\<close>) is left out.
\<close>

record Translator =
  config :: TranslationConfig
  progress :: TranslationProgress
  rateLimiter :: RateLimiter
  poFile :: PoFile
  written :: "string list"
  clock :: rat
  slept :: "rat list"

text \<open>The constructor, then the first lines of \<^verbatim>\<open>translateFile\<close> up to the selection.\<close>

definition new_Translator :: "TranslationConfig \<Rightarrow> Translator" where
  "new_Translator cfg =
     \<lparr> config = cfg,
       progress = \<lparr> total = 0, completed = 0, failed = 0, current = None,
                    rateLimitHits = Some 0, averageDelay = Some (js_or (delay cfg) 1000) \<rparr>,
       rateLimiter = new_RateLimiter cfg,
       poFile = \<lparr>header = [], entries = []\<rparr>,
       written = [],
       clock = 0,
       slept = [] \<rparr>"

definition needs_translation :: "TranslationEntry \<Rightarrow> bool" where
  "needs_translation entry =
     (if msgid entry = [] then False
      else if msgstr entry \<noteq> [] \<and> msgstr entry \<noteq> msgid entry then False
      else True)"

definition entriesToTranslate :: "PoFile \<Rightarrow> TranslationEntry list" where
  "entriesToTranslate file = filter needs_translation (entries file)"

definition load :: "string \<Rightarrow> Translator \<Rightarrow> Translator" where
  "load content t =
     (let t1 = t\<lparr>poFile := parse content\<rparr>
      in t1\<lparr>progress := (progress t1)\<lparr>total := int (length (entriesToTranslate (poFile t1)))\<rparr>\<rparr>)"

text \<open>
  \<^verbatim>\<open>translateEntry\<close> receives an entry object that is an element of
  \<^verbatim>\<open>this.poFile.entries\<close>; writing \<^verbatim>\<open>entry.msgstr\<close> changes the catalog that \<^verbatim>\<open>serialize\<close>
  then reads. The entry is therefore given by its index \<open>i\<close> in the catalog.
\<close>

definition set_msgstr :: "nat \<Rightarrow> string \<Rightarrow> PoFile \<Rightarrow> PoFile" where
  "set_msgstr i text file = file\<lparr>entries := (entries file)[i := (entries file ! i)\<lparr>msgstr := text\<rparr>]\<rparr>"

definition persist :: "Translator \<Rightarrow> Translator" where
  "persist t = t\<lparr>written := written t @ [serialize (poFile t)]\<rparr>"

definition sleep :: "rat \<Rightarrow> Translator \<Rightarrow> Translator" where
  "sleep ms t = t\<lparr>clock := clock t + max 0 ms, slept := slept t @ [ms]\<rparr>"

text \<open>What one call of \<^verbatim>\<open>this.provider.translate\<close> does: it returns a text or throws.\<close>

datatype outcome = Translated string | Thrown js_error

text \<open>
  The success path of the inner \<^verbatim>\<open>try\<close> (the entry is updated, the count and the limiter
  too, the file is written) and its \<^verbatim>\<open>finally\<close>.
\<close>

definition on_success :: "nat \<Rightarrow> string \<Rightarrow> Translator \<Rightarrow> Translator" where
  "on_success i translatedText t =
     (let t1 = t\<lparr>poFile := set_msgstr i translatedText (poFile t)\<rparr>;
          t2 = t1\<lparr>progress := (progress t1)\<lparr>completed := completed (progress t1) + 1\<rparr>\<rparr>;
          t3 = t2\<lparr>rateLimiter := handleSuccess (rateLimiter t2)\<rparr>;
          t4 = persist t3
      in t4\<lparr>rateLimiter := releaseToken (rateLimiter t4)\<rparr>)"

text \<open>
  The failure path: the inner \<^verbatim>\<open>finally\<close> releases the token, then the \<^verbatim>\<open>catch\<close>
  block runs with the counter \<open>retries\<close>. The result says whether the loop goes on
  (\<^verbatim>\<open>continue\<close>, or the end of the block) or the function returns, and gives the counter
  and the state.
\<close>

definition on_failure ::
  "nat \<Rightarrow> int \<Rightarrow> js_error \<Rightarrow> int \<Rightarrow> Translator \<Rightarrow> bool \<times> int \<times> Translator" where
  "on_failure i maxRetries' error retries t =
     (let t0 = t\<lparr>rateLimiter := releaseToken (rateLimiter t)\<rparr>;
          t1 = t0\<lparr>rateLimiter := releaseToken (rateLimiter t0)\<rparr>;
          handled = handleRateLimit error (rateLimiter t1);
          t2 = t1\<lparr>rateLimiter := snd handled\<rparr>
      in if fst handled then
           (let t3 = t2\<lparr>progress := (progress t2)
                        \<lparr>rateLimitHits := Some (js_or (rateLimitHits (progress t2)) 0 + 1)\<rparr>\<rparr>;
                waitTime = js_or (retryAfter error) (5000 * 2 ^ nat retries)
            in (True, retries + 1, sleep waitTime t3))
         else
           (let retries' = retries + 1 in
            if retries' < maxRetries' then (True, retries', sleep (2000 * of_int retries') t2)
            else
              (let t3 = t2\<lparr>poFile := set_msgstr i (msgid (entries (poFile t2) ! i)) (poFile t2)\<rparr>;
                   t4 = t3\<lparr>progress := (progress t3)\<lparr>failed := failed (progress t3) + 1\<rparr>\<rparr>
               in (False, retries', persist t4))))"

text \<open>
  The loop \<^verbatim>\<open>while (retries < maxRetries)\<close> for a task that runs alone. \<open>translate k\<close> is
  what the capability does at the call number \<open>k\<close> of this entry, counted from 0 (the
  loop makes one call per round, and a round that fails adds one to \<open>retries\<close>). The
  result is \<open>None\<close> when \<^verbatim>\<open>acquireToken\<close> never returns.
\<close>

function translateEntry_loop ::
  "(nat \<Rightarrow> outcome) \<Rightarrow> nat \<Rightarrow> int \<Rightarrow> int \<Rightarrow> Translator \<Rightarrow> Translator option" where
  "translateEntry_loop translate i maxRetries' retries t =
     (if retries < maxRetries' then
        (let t1 = t\<lparr>progress := (progress t)\<lparr>current := Some (msgid (entries (poFile t) ! i))\<rparr>\<rparr>
         in case acquireToken (clock t1) (rateLimiter t1) of
              None \<Rightarrow> None
            | Some (clk, rl) \<Rightarrow>
                (let t2 = t1\<lparr>clock := clk, rateLimiter := rl\<rparr>
                 in case translate (nat retries) of
                      Translated translatedText \<Rightarrow> Some (on_success i translatedText t2)
                    | Thrown error \<Rightarrow>
                        (let r = on_failure i maxRetries' error retries t2
                         in if fst r
                            then translateEntry_loop translate i maxRetries' (fst (snd r)) (snd (snd r))
                            else Some (snd (snd r)))))
      else Some t)"
  by pat_completeness auto
termination
  by (relation "measure (\<lambda>(translate, i, maxRetries', retries, t). nat (maxRetries' - retries))")
     (auto simp: on_failure_def Let_def split: if_splits)

definition translateEntry :: "(nat \<Rightarrow> outcome) \<Rightarrow> nat \<Rightarrow> Translator \<Rightarrow> Translator option" where
  "translateEntry translate i t =
     translateEntry_loop translate i (effective_maxRetries (config t)) 0 t"


declare translateEntry_loop.simps [simp del]

subsection \<open>What a task leaves in its entry\<close>



text \<open>No token is held and the ceiling admits a call: the state in which a task that runs alone gets its token.\<close>

definition gate_open :: "RateLimiter \<Rightarrow> bool" where
  "gate_open rl = (activeRequests rl = 0 \<and> 1 \<le> maxConcurrentRequests rl)"

section \<open>Concrete inputs\<close>

definition cli_none :: cliOptions where
  "cli_none =
     \<lparr> opt_provider = None, opt_batchSize = None, opt_delay = None, opt_maxRetries = None,
       opt_requestsPerMinute = None, opt_requestsPerSecond = None,
       opt_maxConcurrentRequests = None, opt_adaptiveRateLimit = None \<rparr>"

definition entry_hello :: TranslationEntry where
  "entry_hello = \<lparr>msgid = ''Hello'', msgstr = [], comments = None, line = Some 8\<rparr>"

definition entry_done :: TranslationEntry where
  "entry_done = \<lparr>msgid = ''Bye'', msgstr = ''Tchau'', comments = Some [''#: app.c:3''],
                  line = Some 5\<rparr>"

definition two_entries :: PoFile where
  "two_entries = \<lparr>header = [], entries = [entry_done, entry_hello]\<rparr>"


text \<open>A Translator whose catalog is loaded.\<close>

definition translator_on :: "TranslationConfig \<Rightarrow> PoFile \<Rightarrow> Translator" where
  "translator_on cfg file = (new_Translator cfg)\<lparr>poFile := file\<rparr>"

definition hello_translator :: Translator where
  "hello_translator = translator_on plain_config \<lparr>header = [], entries = [entry_hello]\<rparr>"


definition error_429_retry_after :: js_error where
  "error_429_retry_after = error_429\<lparr>retryAfter := Some 2000\<rparr>"



text \<open>Catalogs and a text for the codec.\<close>

definition language_catalog :: PoFile where
  "language_catalog = \<lparr>header = [(''Language'', ''pt'')], entries = []\<rparr>"

definition backslash_n_catalog :: PoFile where
  "backslash_n_catalog =
     \<lparr>header = [],
      entries = [\<lparr>msgid = ''C:'' @ [BACKSLASH] @ ''new'', msgstr = [], comments = None,
                  line = Some 4\<rparr>]\<rparr>"

definition garbage_text :: string where
  "garbage_text = ''BEGIN'' @ [LF] @ ''  msgid'' @ [LF] @ [DQUOTE] @ ''open''"

text \<open>
  Two calls of \<^verbatim>\<open>acquireToken\<close> on a limiter with a ceiling of 1 and the default delay
  of 1000 ms, and a run of the event loop: both calls start, a second passes, both
  timers fire.
\<close>

definition two_callers :: gate_system where
  "two_callers =
     \<lparr> limiter = new_RateLimiter (plain_config\<lparr>cfg_maxConcurrentRequests := Some 1\<rparr>),
       time_ms = 0,
       calls = [new_call, new_call] \<rparr>"

definition race_schedule :: "gate_event list" where
  "race_schedule = [Resume 0, Resume 1, Tick 1000, Resume 0, Resume 1]"

section \<open>Configuration: the falsy-or fallbacks\<close>

lemma js_or_nonzero: "d \<noteq> 0 \<Longrightarrow> js_or x d \<noteq> 0"
  by (simp add: js_or_def split: option.splits)

text \<open>
  C10. A configured 0 for the batch size, the base delay or the maximum number of retries
  is replaced by the default (10, 1000 ms, 3): in \<^verbatim>\<open>translateFile\<close>, in
  \<^verbatim>\<open>translateEntry\<close>, in the RateLimiter's constructor, and already in the configuration
  that \<^verbatim>\<open>main\<close> assembles from the command line. So none of the three effective values
  is ever 0, whatever the configuration.
\<close>

theorem zero_is_not_configurable:
  "effective_batchSize (cfg\<lparr>batchSize := Some 0\<rparr>) = 10
   \<and> effective_maxRetries (cfg\<lparr>maxRetries := Some 0\<rparr>) = 3
   \<and> effective_baseDelay (cfg\<lparr>delay := Some 0\<rparr>) = 1000
   \<and> baseDelay (new_RateLimiter (cfg\<lparr>delay := Some 0\<rparr>)) = 1000
   \<and> batchSize (main_config (options\<lparr>opt_batchSize := Some 0\<rparr>)) = Some 10
   \<and> maxRetries (main_config (options\<lparr>opt_maxRetries := Some 0\<rparr>)) = Some 3
   \<and> delay (main_config (options\<lparr>opt_delay := Some 0\<rparr>)) = Some 1000
   \<and> effective_batchSize cfg \<noteq> 0
   \<and> effective_maxRetries cfg \<noteq> 0
   \<and> effective_baseDelay cfg \<noteq> 0
   \<and> baseDelay (new_RateLimiter cfg) \<noteq> 0"
  by (simp add: effective_batchSize_def effective_maxRetries_def effective_baseDelay_def
      new_RateLimiter_def main_config_def DEFAULT_batchSize_def DEFAULT_maxRetries_def
      DEFAULT_delay_def js_or_nonzero split: prod.splits)
     (simp add: js_or_def)

theorem zero_is_not_configurable_witness:
  "effective_batchSize (plain_config\<lparr>batchSize := Some 0\<rparr>) = 10
   \<and> effective_maxRetries (plain_config\<lparr>maxRetries := Some 0\<rparr>) = 3
   \<and> baseDelay (new_RateLimiter (plain_config\<lparr>delay := Some 0\<rparr>)) = 1000
   \<and> batchSize (main_config (cli_none\<lparr>opt_batchSize := Some 0\<rparr>)) = Some 10"
  using zero_is_not_configurable [of plain_config cli_none] by simp

section \<open>Selection of the entries to translate\<close>

text \<open>
  C6. The filter of \<^verbatim>\<open>translateFile\<close> keeps, in the catalog's order, exactly the entries
  whose source id is not empty and whose translation is empty or equal to the source
  id. Hence an entry with a translation that is neither empty nor the source id is
  never selected.
\<close>

theorem selection_filter:
  "entriesToTranslate file =
     filter (\<lambda>entry. msgid entry \<noteq> [] \<and> (msgstr entry = [] \<or> msgstr entry = msgid entry))
       (entries file)
   \<and> (entry \<in> set (entriesToTranslate file) \<longleftrightarrow>
        entry \<in> set (entries file) \<and> msgid entry \<noteq> []
        \<and> (msgstr entry = [] \<or> msgstr entry = msgid entry))"
proof -
  have "needs_translation e = (msgid e \<noteq> [] \<and> (msgstr e = [] \<or> msgstr e = msgid e))" for e
    by (simp add: needs_translation_def)
  then have fn: "needs_translation =
      (\<lambda>e. msgid e \<noteq> [] \<and> (msgstr e = [] \<or> msgstr e = msgid e))"
    by (rule ext)
  show ?thesis
    unfolding entriesToTranslate_def fn by auto
qed

lemma parse_two_entries: "parse (serialize two_entries) = two_entries"
  by code_simp

theorem selection_filter_witness:
  "entriesToTranslate (parse (serialize two_entries)) = [entry_hello]
   \<and> entry_hello \<in> set (entriesToTranslate (parse (serialize two_entries)))
   \<and> entry_done \<notin> set (entriesToTranslate (parse (serialize two_entries)))
   \<and> total (progress (load (serialize two_entries) (new_Translator plain_config))) = 1"
  using selection_filter [of "parse (serialize two_entries)" entry_hello]
    selection_filter [of "parse (serialize two_entries)" entry_done]
  unfolding parse_two_entries load_def
  by (simp add: two_entries_def entry_hello_def entry_done_def)

section \<open>The adaptive part of the RateLimiter\<close>

lemma isRateLimitError_429: "isRateLimitError error_429"
  by (simp add: isRateLimitError_def error_429_def js_or_def)

lemma isRateLimitError_generic: "\<not> isRateLimitError error_generic"
  by (simp add: isRateLimitError_def error_generic_def js_or_def toLowerCase_def toLowerChar_def)

lemma handleRateLimit_returns: "fst (handleRateLimit error rl) = isRateLimitError error"
  by (simp add: handleRateLimit_def Let_def)

lemma handleRateLimit_adaptive:
  "adaptiveMode rl \<Longrightarrow> isRateLimitError error \<Longrightarrow>
   snd (handleRateLimit error rl) =
     rl\<lparr>currentDelay := min (currentDelay rl * 2) 30000,
        maxConcurrentRequests := max 1 (maxConcurrentRequests rl * 4 div 5)\<rparr>"
proof -
  have "\<lfloor>of_int m * (8 / 10 :: rat)\<rfloor> = m * 4 div 5" for m :: int
  proof -
    have "of_int m * (8 / 10 :: rat) = of_int (m * 4) / of_int 5" by simp
    then show ?thesis by (simp only: floor_divide_of_int_eq)
  qed
  then show "adaptiveMode rl \<Longrightarrow> isRateLimitError error \<Longrightarrow> ?thesis"
    by (simp add: handleRateLimit_def Let_def)
qed

lemma handleRateLimit_not_throttling:
  "\<not> isRateLimitError error \<Longrightarrow> handleRateLimit error rl = (False, rl)"
  by (simp add: handleRateLimit_def Let_def)

lemma adaptiveMode_always: "adaptiveMode (new_RateLimiter cfg) = True"
  by (simp add: new_RateLimiter_def js_or_bool_def split: prod.splits option.splits)

text \<open>
  C3. The claim says that with the adaptive mode switched off in the configuration,
  \<^verbatim>\<open>handleRateLimit\<close> leaves the delay and the ceiling alone. The constructor reads the
  switch as \<^verbatim>\<open>config.adaptiveRateLimit || true\<close>, which is true for every value of the
  switch. With \<^verbatim>\<open>--no-adaptive-rate-limit\<close> and the defaults of OpenAI, a 429 still
  doubles the delay from 1000 to 2000 and lowers the ceiling from 10 to 8.
\<close>

theorem adaptive_switch_off_still_adapts:
  "adaptiveRateLimit (main_config (cli_none\<lparr>opt_adaptiveRateLimit := Some False\<rparr>)) = Some False
   \<and> adaptiveMode (new_RateLimiter (main_config (cli_none\<lparr>opt_adaptiveRateLimit := Some False\<rparr>)))
   \<and> currentDelay (new_RateLimiter (main_config (cli_none\<lparr>opt_adaptiveRateLimit := Some False\<rparr>)))
       = 1000
   \<and> maxConcurrentRequests
        (new_RateLimiter (main_config (cli_none\<lparr>opt_adaptiveRateLimit := Some False\<rparr>))) = 10
   \<and> currentDelay (snd (handleRateLimit error_429
        (new_RateLimiter (main_config (cli_none\<lparr>opt_adaptiveRateLimit := Some False\<rparr>))))) = 2000
   \<and> maxConcurrentRequests (snd (handleRateLimit error_429
        (new_RateLimiter (main_config (cli_none\<lparr>opt_adaptiveRateLimit := Some False\<rparr>))))) = 8"
  by (simp add: main_config_def cli_none_def new_RateLimiter_def js_nullish_def js_or_def
      js_or_bool_def effective_baseDelay_def DEFAULT_delay_def DEFAULT_batchSize_def
      DEFAULT_maxRetries_def handleRateLimit_def isRateLimitError_429 Let_def)

text \<open>
  C4 as stated fails. A base delay of 60000 ms is above the ceiling of 30 seconds from the
  start, and one throttling report then brings the current delay to 30000 ms, below the
  base delay.
\<close>

theorem delay_bounds_counterexample:
  "currentDelay (new_RateLimiter (plain_config\<lparr>delay := Some 60000\<rparr>)) > 30000
   \<and> currentDelay (limiter_run [ReportThrottled error_429]
        (new_RateLimiter (plain_config\<lparr>delay := Some 60000\<rparr>)))
     < baseDelay (limiter_run [ReportThrottled error_429]
        (new_RateLimiter (plain_config\<lparr>delay := Some 60000\<rparr>)))"
  by (simp add: plain_config_def new_RateLimiter_def js_nullish_def js_or_def js_or_bool_def
      effective_baseDelay_def limiter_run_def handleRateLimit_def isRateLimitError_429 Let_def)

lemma limiter_step_bounds:
  assumes "0 \<le> baseDelay rl" "baseDelay rl \<le> currentDelay rl" "currentDelay rl \<le> 30000"
    "1 \<le> maxConcurrentRequests rl"
  shows "baseDelay (limiter_step rl c) = baseDelay rl
    \<and> baseDelay rl \<le> currentDelay (limiter_step rl c)
    \<and> currentDelay (limiter_step rl c) \<le> 30000
    \<and> 1 \<le> maxConcurrentRequests (limiter_step rl c)"
  using assms by (cases c) (auto simp: handleRateLimit_def handleSuccess_def Let_def)

text \<open>
  C4, amended. Take a limiter whose base delay is not negative, whose current delay lies
  between the base delay and 30000 ms, and whose ceiling is at least 1 (the constructor
  gives such a limiter when the configured base delay is at most 30000 ms and positive,
  and the configured ceiling is at least 1). After every finite sequence of
  \<^verbatim>\<open>handleRateLimit\<close> calls (with any error) and \<^verbatim>\<open>handleSuccess\<close> calls, the base delay
  is the same, the current delay is still between the base delay and 30000 ms, and the
  ceiling is still at least 1.
\<close>

theorem adaptive_bounds:
  assumes "0 \<le> baseDelay rl" "baseDelay rl \<le> currentDelay rl" "currentDelay rl \<le> 30000"
    "1 \<le> maxConcurrentRequests rl"
  shows "baseDelay (limiter_run cs rl) = baseDelay rl
    \<and> baseDelay rl \<le> currentDelay (limiter_run cs rl)
    \<and> currentDelay (limiter_run cs rl) \<le> 30000
    \<and> 1 \<le> maxConcurrentRequests (limiter_run cs rl)"
  using assms
proof (induction cs arbitrary: rl)
  case Nil
  then show ?case by (simp add: limiter_run_def)
next
  case (Cons c cs)
  have step: "baseDelay (limiter_step rl c) = baseDelay rl
    \<and> baseDelay rl \<le> currentDelay (limiter_step rl c)
    \<and> currentDelay (limiter_step rl c) \<le> 30000
    \<and> 1 \<le> maxConcurrentRequests (limiter_step rl c)"
    using Cons.prems by (rule limiter_step_bounds)
  have "limiter_run (c # cs) rl = limiter_run cs (limiter_step rl c)"
    by (simp add: limiter_run_def)
  with Cons.IH [of "limiter_step rl c"] step Cons.prems show ?case by simp
qed

theorem adaptive_bounds_witness:
  "0 \<le> baseDelay (new_RateLimiter plain_config)
   \<and> baseDelay (new_RateLimiter plain_config) \<le> currentDelay (new_RateLimiter plain_config)
   \<and> currentDelay (new_RateLimiter plain_config) \<le> 30000
   \<and> 1 \<le> maxConcurrentRequests (new_RateLimiter plain_config)
   \<and> baseDelay (new_RateLimiter plain_config)
       \<le> currentDelay (limiter_run [ReportThrottled error_429, ReportSuccess]
            (new_RateLimiter plain_config))
   \<and> currentDelay (limiter_run [ReportThrottled error_429, ReportSuccess]
        (new_RateLimiter plain_config)) \<le> 30000
   \<and> 1 \<le> maxConcurrentRequests (limiter_run [ReportThrottled error_429, ReportSuccess]
        (new_RateLimiter plain_config))"
proof -
  have h: "0 \<le> baseDelay (new_RateLimiter plain_config)"
    "baseDelay (new_RateLimiter plain_config) \<le> currentDelay (new_RateLimiter plain_config)"
    "currentDelay (new_RateLimiter plain_config) \<le> 30000"
    "1 \<le> maxConcurrentRequests (new_RateLimiter plain_config)"
    by (simp_all add: plain_config_def new_RateLimiter_def js_nullish_def js_or_def
        effective_baseDelay_def)
  from h adaptive_bounds [OF h, of "[ReportThrottled error_429, ReportSuccess]"]
  show ?thesis by simp
qed

section \<open>The per-entry task\<close>

subsection \<open>The steps of the loop\<close>

lemma acquireToken_some:
  assumes "activeRequests rl < maxConcurrentRequests rl"
  shows "\<exists>clk'. acquireToken clk rl =
     Some (clk', rl\<lparr>activeRequests := activeRequests rl + 1,
                    requestTimes := filter (\<lambda>time. clk - time < 60000) (requestTimes rl) @ [clk']\<rparr>)"
  using assms
  by (auto simp: acquireToken_def from_check_def from_second_def from_delay_def commit_token_def
      resume_def Let_def)

lemma handleRateLimit_ceiling: "1 \<le> maxConcurrentRequests rl \<Longrightarrow>
   1 \<le> maxConcurrentRequests (snd (handleRateLimit error rl))
   \<and> activeRequests (snd (handleRateLimit error rl)) = activeRequests rl"
  by (simp add: handleRateLimit_def Let_def)


lemma on_failure_effect:
  assumes "activeRequests (rateLimiter t) = 1" "1 \<le> maxConcurrentRequests (rateLimiter t)"
  shows "fst (snd (on_failure i m error r t)) = r + 1
     \<and> gate_open (rateLimiter (snd (snd (on_failure i m error r t))))
     \<and> config (snd (snd (on_failure i m error r t))) = config t
     \<and> (fst (on_failure i m error r t) \<longleftrightarrow> isRateLimitError error \<or> r + 1 < m)
     \<and> poFile (snd (snd (on_failure i m error r t))) =
         (if fst (on_failure i m error r t) then poFile t
          else set_msgstr i (msgid (entries (poFile t) ! i)) (poFile t))"
  using assms
  by (simp add: on_failure_def Let_def persist_def sleep_def gate_open_def releaseToken_def
      handleRateLimit_def set_msgstr_def)


lemma loop_exit: "\<not> r < m \<Longrightarrow> translateEntry_loop translate i m r t = Some t"
  by (simp add: translateEntry_loop.simps [of translate i m r t])

lemma loop_unfold:
  assumes "gate_open (rateLimiter t)" "r < m"
  obtains t2 where
    "activeRequests (rateLimiter t2) = 1"
    "1 \<le> maxConcurrentRequests (rateLimiter t2)"
    "config t2 = config t" "poFile t2 = poFile t" "written t2 = written t" "slept t2 = slept t"
    "failed (progress t2) = failed (progress t)"
    "translateEntry_loop translate i m r t =
       (case translate (nat r) of
          Translated translatedText \<Rightarrow> Some (on_success i translatedText t2)
        | Thrown error \<Rightarrow>
            (if fst (on_failure i m error r t2)
             then translateEntry_loop translate i m (fst (snd (on_failure i m error r t2)))
                    (snd (snd (on_failure i m error r t2)))
             else Some (snd (snd (on_failure i m error r t2)))))"
proof -
  define t1 where "t1 = t\<lparr>progress := (progress t)\<lparr>current := Some (msgid (entries (poFile t) ! i))\<rparr>\<rparr>"
  have "activeRequests (rateLimiter t1) < maxConcurrentRequests (rateLimiter t1)"
    using assms(1) by (simp add: t1_def gate_open_def)
  from acquireToken_some [OF this, of "clock t1"]
  obtain clk where acq: "acquireToken (clock t1) (rateLimiter t1) =
      Some (clk, (rateLimiter t1)\<lparr>activeRequests := activeRequests (rateLimiter t1) + 1,
         requestTimes := filter (\<lambda>time. clock t1 - time < 60000) (requestTimes (rateLimiter t1)) @ [clk]\<rparr>)"
    by blast
  define t2 where "t2 = t1\<lparr>clock := clk, rateLimiter := (rateLimiter t1)
       \<lparr>activeRequests := activeRequests (rateLimiter t1) + 1,
        requestTimes := filter (\<lambda>time. clock t1 - time < 60000) (requestTimes (rateLimiter t1)) @ [clk]\<rparr>\<rparr>"
  have fields: "activeRequests (rateLimiter t2) = 1" "1 \<le> maxConcurrentRequests (rateLimiter t2)"
    "config t2 = config t" "poFile t2 = poFile t" "written t2 = written t" "slept t2 = slept t"
    "failed (progress t2) = failed (progress t)"
    using assms(1) by (simp_all add: t2_def t1_def gate_open_def)
  have "translateEntry_loop translate i m r t =
       (case translate (nat r) of
          Translated translatedText \<Rightarrow> Some (on_success i translatedText t2)
        | Thrown error \<Rightarrow>
            (if fst (on_failure i m error r t2)
             then translateEntry_loop translate i m (fst (snd (on_failure i m error r t2)))
                    (snd (snd (on_failure i m error r t2)))
             else Some (snd (snd (on_failure i m error r t2)))))"
    using assms(2) acq
    by (simp add: translateEntry_loop.simps [of translate i m r t] t1_def [symmetric]
        t2_def [symmetric] Let_def split: outcome.split)
  with fields show ?thesis by (rule that)
qed





lemma on_failure_throttled:
  assumes "isRateLimitError error"
  shows "fst (on_failure i m error r t)"
    and "fst (snd (on_failure i m error r t)) = r + 1"
    and "poFile (snd (snd (on_failure i m error r t))) = poFile t"
    and "failed (progress (snd (snd (on_failure i m error r t)))) = failed (progress t)"
    and "written (snd (snd (on_failure i m error r t))) = written t"
    and "slept (snd (snd (on_failure i m error r t))) =
           slept t @ [js_or (retryAfter error) (5000 * 2 ^ nat r)]"
    and "rateLimitHits (progress (snd (snd (on_failure i m error r t)))) =
           Some (js_or (rateLimitHits (progress t)) 0 + 1)"
  using assms by (simp_all add: on_failure_def Let_def handleRateLimit_def sleep_def)

lemma on_failure_generic_retry:
  assumes "\<not> isRateLimitError error" "r + 1 < m"
  shows "fst (on_failure i m error r t)"
    and "fst (snd (on_failure i m error r t)) = r + 1"
    and "poFile (snd (snd (on_failure i m error r t))) = poFile t"
    and "failed (progress (snd (snd (on_failure i m error r t)))) = failed (progress t)"
    and "written (snd (snd (on_failure i m error r t))) = written t"
    and "slept (snd (snd (on_failure i m error r t))) = slept t @ [2000 * of_int (r + 1)]"
    and "rateLimitHits (progress (snd (snd (on_failure i m error r t)))) =
           rateLimitHits (progress t)"
  using assms by (simp_all add: on_failure_def Let_def handleRateLimit_def sleep_def)

lemma on_failure_generic_last:
  assumes "\<not> isRateLimitError error" "\<not> r + 1 < m"
  shows "\<not> fst (on_failure i m error r t)"
    and "fst (snd (on_failure i m error r t)) = r + 1"
    and "poFile (snd (snd (on_failure i m error r t))) =
           set_msgstr i (msgid (entries (poFile t) ! i)) (poFile t)"
    and "failed (progress (snd (snd (on_failure i m error r t)))) = failed (progress t) + 1"
    and "written (snd (snd (on_failure i m error r t))) =
           written t @ [serialize (set_msgstr i (msgid (entries (poFile t) ! i)) (poFile t))]"
    and "slept (snd (snd (on_failure i m error r t))) = slept t"
  using assms by (simp_all add: on_failure_def Let_def handleRateLimit_def persist_def)

lemma exhausted_by_throttling:
  assumes "gate_open (rateLimiter t)" "0 \<le> r" "r < m"
    "\<forall>k. r \<le> k \<and> k < m \<longrightarrow> (\<exists>e. translate (nat k) = Thrown e)"
    "\<exists>e. translate (nat (m - 1)) = Thrown e \<and> isRateLimitError e"
  shows "\<exists>t'. translateEntry_loop translate i m r t = Some t'
     \<and> poFile t' = poFile t \<and> failed (progress t') = failed (progress t)
     \<and> written t' = written t"
  using assms
proof (induction "nat (m - r)" arbitrary: r t)
  case 0
  then show ?case by simp
next
  case (Suc n)
  from loop_unfold [OF Suc.prems(1) Suc.prems(3), of translate i]
  obtain t2 where t2: "activeRequests (rateLimiter t2) = 1"
    "1 \<le> maxConcurrentRequests (rateLimiter t2)"
    "poFile t2 = poFile t" "written t2 = written t" "failed (progress t2) = failed (progress t)"
    and unfold: "translateEntry_loop translate i m r t =
       (case translate (nat r) of
          Translated translatedText \<Rightarrow> Some (on_success i translatedText t2)
        | Thrown error \<Rightarrow>
            (if fst (on_failure i m error r t2)
             then translateEntry_loop translate i m (fst (snd (on_failure i m error r t2)))
                    (snd (snd (on_failure i m error r t2)))
             else Some (snd (snd (on_failure i m error r t2)))))"
    by blast
  obtain e where e: "translate (nat r) = Thrown e"
    using Suc.prems(2,3,4) by blast
  define t3 where "t3 = snd (snd (on_failure i m e r t2))"
  have gate: "gate_open (rateLimiter t3)"
    using on_failure_effect [OF t2(1,2), of i m e r] by (simp add: t3_def)
  have last_generic: "r + 1 < m" if "\<not> isRateLimitError e"
  proof (rule ccontr)
    assume "\<not> r + 1 < m"
    then have "m - 1 = r" using Suc.prems(3) by simp
    then show False using Suc.prems(5) e that by simp
  qed
  have step: "fst (on_failure i m e r t2)" "fst (snd (on_failure i m e r t2)) = r + 1"
    "poFile t3 = poFile t" "failed (progress t3) = failed (progress t)" "written t3 = written t"
    using on_failure_throttled [of e i m r t2] on_failure_generic_retry [of e r m i t2]
      last_generic t2
    by (cases "isRateLimitError e"; simp add: t3_def)+
  have unfold': "translateEntry_loop translate i m r t = translateEntry_loop translate i m (r + 1) t3"
    using unfold e step(1,2) by (simp add: t3_def)
  show ?case
  proof (cases "r + 1 < m")
    case False
    then show ?thesis using unfold' step by (simp add: loop_exit)
  next
    case True
    have "n = nat (m - (r + 1))" using Suc.hyps(2) by simp
    from Suc.hyps(1) [OF this gate _ True] Suc.prems(2,4,5)
    have "\<exists>t'. translateEntry_loop translate i m (r + 1) t3 = Some t'
       \<and> poFile t' = poFile t3 \<and> failed (progress t') = failed (progress t3)
       \<and> written t' = written t3"
      by simp
    then show ?thesis using unfold' step by simp
  qed
qed

lemma exhausted_by_generic:
  assumes "gate_open (rateLimiter t)" "0 \<le> r" "r < m"
    "\<forall>k. r \<le> k \<and> k < m \<longrightarrow> (\<exists>e. translate (nat k) = Thrown e)"
    "\<exists>e. translate (nat (m - 1)) = Thrown e \<and> \<not> isRateLimitError e"
  shows "\<exists>t'. translateEntry_loop translate i m r t = Some t'
     \<and> poFile t' = set_msgstr i (msgid (entries (poFile t) ! i)) (poFile t)
     \<and> failed (progress t') = failed (progress t) + 1
     \<and> written t' = written t @ [serialize (poFile t')]"
  using assms
proof (induction "nat (m - r)" arbitrary: r t)
  case 0
  then show ?case by simp
next
  case (Suc n)
  from loop_unfold [OF Suc.prems(1) Suc.prems(3), of translate i]
  obtain t2 where t2: "activeRequests (rateLimiter t2) = 1"
    "1 \<le> maxConcurrentRequests (rateLimiter t2)"
    "poFile t2 = poFile t" "written t2 = written t" "failed (progress t2) = failed (progress t)"
    and unfold: "translateEntry_loop translate i m r t =
       (case translate (nat r) of
          Translated translatedText \<Rightarrow> Some (on_success i translatedText t2)
        | Thrown error \<Rightarrow>
            (if fst (on_failure i m error r t2)
             then translateEntry_loop translate i m (fst (snd (on_failure i m error r t2)))
                    (snd (snd (on_failure i m error r t2)))
             else Some (snd (snd (on_failure i m error r t2)))))"
    by blast
  obtain e where e: "translate (nat r) = Thrown e"
    using Suc.prems(2,3,4) by blast
  define t3 where "t3 = snd (snd (on_failure i m e r t2))"
  have gate: "gate_open (rateLimiter t3)"
    using on_failure_effect [OF t2(1,2), of i m e r] by (simp add: t3_def)
  show ?case
  proof (cases "r + 1 < m")
    case False
    then have "m - 1 = r" using Suc.prems(3) by simp
    then have generic: "\<not> isRateLimitError e" using Suc.prems(5) e by simp
    show ?thesis
      using unfold e on_failure_generic_last [OF generic False, of i t2] t2
      by simp
  next
    case True
    have step: "fst (on_failure i m e r t2)" "fst (snd (on_failure i m e r t2)) = r + 1"
      "poFile t3 = poFile t" "failed (progress t3) = failed (progress t)" "written t3 = written t"
      using on_failure_throttled [of e i m r t2] on_failure_generic_retry [of e r m i t2] True t2
      by (cases "isRateLimitError e"; simp add: t3_def)+
    have unfold': "translateEntry_loop translate i m r t = translateEntry_loop translate i m (r + 1) t3"
      using unfold e step(1,2) by (simp add: t3_def)
    have "n = nat (m - (r + 1))" using Suc.hyps(2) by simp
    from Suc.hyps(1) [OF this gate _ True] Suc.prems(2,4,5)
    have "\<exists>t'. translateEntry_loop translate i m (r + 1) t3 = Some t'
       \<and> poFile t' = set_msgstr i (msgid (entries (poFile t3) ! i)) (poFile t3)
       \<and> failed (progress t') = failed (progress t3) + 1
       \<and> written t' = written t3 @ [serialize (poFile t')]"
      by simp
    then show ?thesis using unfold' step by simp
  qed
qed

subsection \<open>Backoff\<close>

text \<open>
  C8 as stated fails. No attempt number serves both formulas: the first failure waits
  2000 ms = 2000 * 1 when it is generic, and 5000 ms = 5000 * 2^0 when it is
  throttling-shaped. And with a budget of 3, the third failure, when it is generic,
  leaves the loop without any wait (it is the fallback).
\<close>

theorem generic_wait_counterexample:
  "\<not> (\<exists>attempt :: nat.
         slept (snd (snd (on_failure 0 3 error_generic 0 hello_translator))) =
           slept hello_translator @ [2000 * of_nat attempt]
         \<and> slept (snd (snd (on_failure 0 3 error_429 0 hello_translator))) =
             slept hello_translator @ [5000 * 2 ^ attempt])
   \<and> \<not> fst (on_failure 0 3 error_generic 2 hello_translator)
   \<and> slept (snd (snd (on_failure 0 3 error_generic 2 hello_translator))) = slept hello_translator"
proof -
  have none: "retryAfter error_429 = None" by (simp add: error_429_def)
  have generic: "slept (snd (snd (on_failure 0 3 error_generic 0 hello_translator))) =
      slept hello_translator @ [2000]"
    by (simp add: on_failure_def handleRateLimit_def isRateLimitError_generic Let_def sleep_def)
  have throttled: "slept (snd (snd (on_failure 0 3 error_429 0 hello_translator))) =
      slept hello_translator @ [5000]"
    using none
    by (simp add: on_failure_def handleRateLimit_def isRateLimitError_429 Let_def sleep_def
        js_or_def)
  have last: "\<not> fst (on_failure 0 3 error_generic 2 hello_translator)"
    "slept (snd (snd (on_failure 0 3 error_generic 2 hello_translator))) = slept hello_translator"
    by (simp_all add: on_failure_def handleRateLimit_def isRateLimitError_generic Let_def
        persist_def)
  have "\<not> ((2000 :: rat) = 2000 * of_nat attempt \<and> (5000 :: rat) = 5000 * 2 ^ attempt)"
    for attempt :: nat
  proof
    assume a: "(2000 :: rat) = 2000 * of_nat attempt \<and> (5000 :: rat) = 5000 * 2 ^ attempt"
    then have "(of_nat attempt :: rat) = 1" by simp
    then have "attempt = 1" using of_nat_eq_1_iff by blast
    with a show False by simp
  qed
  then show ?thesis
    unfolding generic throttled using last by simp
qed

lemma isRateLimitError_429_retry_after: "isRateLimitError error_429_retry_after"
  by (simp add: isRateLimitError_def error_429_retry_after_def error_429_def js_or_def)

text \<open>
  C8, amended. Let \<open>retries\<close> be the value of the shared counter when the attempt fails
  (the number of failures before it). The catch block adds exactly one to the counter.
  A throttling-shaped failure waits the error's \<^verbatim>\<open>retryAfter\<close> when it is present and
  not 0, and otherwise 5000 * 2^retries ms, and the loop goes on. A failure that is not
  throttling-shaped waits 2000 * (retries + 1) ms and the loop goes on, when
  retries + 1 is below the budget; otherwise it does not wait and the function returns.
\<close>

theorem catch_block_waits:
  assumes "0 \<le> retries"
  shows "fst (snd (on_failure i m error retries t)) = retries + 1
    \<and> (isRateLimitError error \<longrightarrow>
         fst (on_failure i m error retries t)
         \<and> slept (snd (snd (on_failure i m error retries t))) =
             slept t @ [js_or (retryAfter error) (5000 * 2 ^ nat retries)])
    \<and> (\<not> isRateLimitError error \<and> retries + 1 < m \<longrightarrow>
         fst (on_failure i m error retries t)
         \<and> slept (snd (snd (on_failure i m error retries t))) =
             slept t @ [2000 * of_int (retries + 1)])
    \<and> (\<not> isRateLimitError error \<and> \<not> retries + 1 < m \<longrightarrow>
         \<not> fst (on_failure i m error retries t)
         \<and> slept (snd (snd (on_failure i m error retries t))) = slept t)"
  using on_failure_throttled [of error i m retries t]
    on_failure_generic_retry [of error retries m i t]
    on_failure_generic_last [of error retries m i t]
  by (cases "isRateLimitError error"; cases "retries + 1 < m"; simp)

theorem catch_block_waits_witness:
  "slept (snd (snd (on_failure 0 3 error_429 0 hello_translator))) = [5000]
   \<and> slept (snd (snd (on_failure 0 3 error_429 1 hello_translator))) = [10000]
   \<and> slept (snd (snd (on_failure 0 3 error_429_retry_after 1 hello_translator))) = [2000]
   \<and> slept (snd (snd (on_failure 0 3 error_generic 0 hello_translator))) = [2000]
   \<and> slept (snd (snd (on_failure 0 3 error_generic 1 hello_translator))) = [4000]
   \<and> slept (snd (snd (on_failure 0 3 error_generic 2 hello_translator))) = []
   \<and> fst (snd (on_failure 0 3 error_generic 2 hello_translator)) = 3"
  using catch_block_waits [of 0 0 3 error_429 hello_translator]
    catch_block_waits [of 1 0 3 error_429 hello_translator]
    catch_block_waits [of 1 0 3 error_429_retry_after hello_translator]
    catch_block_waits [of 0 0 3 error_generic hello_translator]
    catch_block_waits [of 1 0 3 error_generic hello_translator]
    catch_block_waits [of 2 0 3 error_generic hello_translator]
    isRateLimitError_429 isRateLimitError_429_retry_after isRateLimitError_generic
  by (simp add: hello_translator_def translator_on_def new_Translator_def js_or_def
      error_429_def error_429_retry_after_def)

subsection \<open>Exhausting the retries\<close>

text \<open>
  C2. The claim says that after \<^verbatim>\<open>maxRetries\<close> failed attempts of any kind the entry is
  marked failed, gets its source id as translation, and the catalog is written. The
  throttling branch of the catch block ends with \<^verbatim>\<open>retries++; continue\<close>, so when the
  last failure is throttling-shaped the loop just ends (lemma
  \<open>exhausted_by_throttling\<close>; the fallback happens when the last failure is generic,
  lemma \<open>exhausted_by_generic\<close>). With the default budget of 3 and a capability that
  answers 429 every time, the translation stays empty, the failed count stays 0 and
  nothing is written.
\<close>

theorem throttled_exhaustion_skips_fallback:
  "\<exists>t'. translateEntry (\<lambda>k. Thrown error_429) 0 hello_translator = Some t'
     \<and> msgid (entries (poFile t') ! 0) = ''Hello''
     \<and> msgstr (entries (poFile t') ! 0) = []
     \<and> failed (progress t') = 0
     \<and> written t' = []"
proof -
  have gate: "gate_open (rateLimiter hello_translator)"
    by (simp add: gate_open_def hello_translator_def translator_on_def new_Translator_def
        new_RateLimiter_def plain_config_def js_nullish_def)
  have m: "effective_maxRetries (config hello_translator) = 3"
    by (simp add: hello_translator_def translator_on_def new_Translator_def plain_config_def
        effective_maxRetries_def js_or_def)
  have "\<exists>t'. translateEntry_loop (\<lambda>k. Thrown error_429) 0 3 0 hello_translator = Some t'
     \<and> poFile t' = poFile hello_translator
     \<and> failed (progress t') = failed (progress hello_translator)
     \<and> written t' = written hello_translator"
    by (rule exhausted_by_throttling [OF gate]) (simp_all add: isRateLimitError_429)
  then obtain t' where run: "translateEntry (\<lambda>k. Thrown error_429) 0 hello_translator = Some t'"
    and same: "poFile t' = poFile hello_translator"
      "failed (progress t') = failed (progress hello_translator)"
      "written t' = written hello_translator"
    by (auto simp: translateEntry_def m)
  have "msgid (entries (poFile t') ! 0) = ''Hello''" "msgstr (entries (poFile t') ! 0) = []"
    "failed (progress t') = 0" "written t' = []"
    using same
    by (simp_all add: hello_translator_def translator_on_def new_Translator_def entry_hello_def)
  with run show ?thesis by blast
qed

subsection \<open>The batch\<close>




section \<open>The gate\<close>

text \<open>
  C5. The claim says that a call returns only when the in-flight count is below the
  ceiling, the checks being made again after every wait, so that at most N calls hold
  a token under a ceiling of N. In \<^verbatim>\<open>acquireToken\<close> only the first loop repeats its
  check; the token is taken after \<^verbatim>\<open>await this.sleep(this.currentDelay)\<close> without
  looking at the count again. With a ceiling of 1, two calls that start together both
  see a count of 0, both sleep the delay, and both take a token: two holders, an
  in-flight count of 2, and no release in between.
\<close>

theorem two_calls_pass_a_ceiling_of_one:
  "maxConcurrentRequests (limiter (gate_run race_schedule two_callers)) = 1
   \<and> activeRequests (limiter (gate_run race_schedule two_callers)) = 2
   \<and> map pc (calls (gate_run race_schedule two_callers)) = [Returned, Returned]
   \<and> holders (gate_run race_schedule two_callers) = 2
   \<and> requestTimes (limiter (gate_run race_schedule two_callers)) = [1000, 1000]"
  by code_simp

section \<open>The codec\<close>

lemma parse_line_skip: "matches_no_production raw \<Longrightarrow> parse_line i raw st = st"
  by (auto simp: matches_no_production_def parse_line_def Let_def)

lemma parse_lines_skip:
  "\<forall>raw\<in>set ls. matches_no_production raw \<Longrightarrow> parse_lines i ls st = st"
  by (induction ls arbitrary: i st) (simp_all add: parse_line_skip)

text \<open>
  C7. \<^verbatim>\<open>parse\<close> is a function on all strings: it is a loop over the lines of the text
  and no branch of it raises. A line that matches none of the productions leaves every
  variable of the loop as it was; a text made of such lines alone yields the empty
  catalog.
\<close>

theorem parse_skips_unrecognized_lines:
  "(matches_no_production raw \<longrightarrow> parse_line i raw st = st)
   \<and> ((\<forall>raw\<in>set (split_on [LF] content). matches_no_production raw) \<longrightarrow>
        parse content = \<lparr>header = [], entries = []\<rparr>)"
proof -
  have "parse content = \<lparr>header = [], entries = []\<rparr>"
    if "\<forall>raw\<in>set (split_on [LF] content). matches_no_production raw"
    using parse_lines_skip [OF that, of 0 parse_start]
    by (simp add: parse_def parse_start_def no_entry_def truthy_def Let_def)
  then show ?thesis by (simp add: parse_line_skip)
qed

lemma garbage_lines: "split_on [LF] garbage_text = [''BEGIN'', ''  msgid'', [DQUOTE] @ ''open'']"
  by code_simp

lemma garbage_unrecognized:
  "matches_no_production ''BEGIN''" "matches_no_production ''  msgid''"
  "matches_no_production ([DQUOTE] @ ''open'')"
  by code_simp+

theorem parse_skips_unrecognized_lines_witness:
  "matches_no_production ''BEGIN''
   \<and> parse_line 0 ''BEGIN'' parse_start = parse_start
   \<and> parse garbage_text = \<lparr>header = [], entries = []\<rparr>"
  using parse_skips_unrecognized_lines [of "''BEGIN''" 0 parse_start garbage_text]
    garbage_lines garbage_unrecognized
  by simp

text \<open>
  C1. The claim is the round trip \<open>parse (serialize c) = c\<close> on the header and the
  entries. \<^verbatim>\<open>serialize\<close> writes the header fields as quoted lines after
  \<^verbatim>\<open>msgstr ""\<close>; \<^verbatim>\<open>parse\<close> reads the header from the \<^verbatim>\<open>msgstr\<close> line itself, before
  those lines, so the header of a serialized catalog comes back empty. And
  \<^verbatim>\<open>parseString\<close> replaces backslash-n before it replaces the doubled backslash, so a
  source id with a backslash followed by the letter n comes back with a backslash
  followed by a line feed.
\<close>

theorem round_trip_loses_header_and_backslash_n:
  "serialize language_catalog =
     ''msgid '' @ [DQUOTE, DQUOTE, LF] @ ''msgstr '' @ [DQUOTE, DQUOTE, LF]
     @ [DQUOTE] @ ''Language: pt'' @ [BACKSLASH, CHR ''n'', DQUOTE, LF] @ [LF]
   \<and> header language_catalog = [(''Language'', ''pt'')]
   \<and> header (parse (serialize language_catalog)) = []
   \<and> map msgid (entries backslash_n_catalog) = [''C:'' @ [BACKSLASH] @ ''new'']
   \<and> map msgid (entries (parse (serialize backslash_n_catalog))) =
       [''C:'' @ [BACKSLASH, LF] @ ''ew'']"
  by code_simp

end
